theory Spec2Isabelle
  imports Main "HOL-Library.Word"
begin

unbundle bit_operations_syntax

section \<open>boltstore: a session store on an embedded key-value database\<close>

text \<open>
  The development embeds \<^verbatim>\<open>store.go\<close>: the methods \<^verbatim>\<open>Get\<close>, \<^verbatim>\<open>New\<close>,
  \<^verbatim>\<open>Save\<close>, \<^verbatim>\<open>load\<close>, \<^verbatim>\<open>delete\<close> and \<^verbatim>\<open>save\<close> of the session store.
  The collaborators the store calls (the bolt database, the secure-cookie codec, gob,
  protocol buffers, the random source and the clock) are libraries outside the repository;
  what they answer during one call is collected in a record \<open>env\<close> that every method takes
  as its first argument.
\<close>

subsection \<open>Data\<close>

type_synonym byte = "8 word"
type_synonym bytes = "byte list"

text \<open>Go's \<^verbatim>\<open>int64\<close>, and \<^verbatim>\<open>int\<close> on a 64-bit platform; \<open>sint\<close> reads the signed value.\<close>

type_synonym int64 = "64 word"

text \<open>A Go \<^verbatim>\<open>error\<close> value; \<^verbatim>\<open>nil\<close> is \<open>None\<close> of \<open>error option\<close>.\<close>

datatype error = Error string

text \<open>\<^verbatim>\<open>sessions.Options\<close>.\<close>

record options =
  Path :: string
  Domain :: string
  MaxAge :: int64
  Secure :: bool
  HttpOnly :: bool

text \<open>
  \<^verbatim>\<open>sessions.Session\<close>: \<open>Values\<close> is Go's \<^verbatim>\<open>map[interface{}]interface{}\<close>, with keys
  of type \<open>'k\<close> and values of type \<open>'x\<close>; \<open>name\<close> is the private field the method
  \<^verbatim>\<open>Name()\<close> returns.
\<close>

record ('k, 'x) session =
  ID :: string
  Values :: "'k \<rightharpoonup> 'x"
  Options :: options
  IsNew :: bool
  name :: string

text \<open>
  Modelled from the spec: the wire record \<^verbatim>\<open>Session\<close> (a protocol-buffer message whose
  declaration is not in \<^verbatim>\<open>store.go\<close>): "binary message with two fields, values (byte
  blob) and expires_at (int64 seconds, 0 = never)". \<^verbatim>\<open>load\<close> reads the second field
  through a pointer, \<^verbatim>\<open>*sessionData.ExpiresAt\<close>; an absent field reads as 0 here, the
  spec's "0 or absent means no expiration".
\<close>

record pb_Session =
  pb_Values :: bytes
  pb_ExpiresAt :: int64

text \<open>
  Modelled from the spec: the constructor \<^verbatim>\<open>NewSession(values, maxAge)\<close> of the wire
  record, called by \<^verbatim>\<open>save\<close> and not in \<^verbatim>\<open>store.go\<close>: "expiresAt is computed as
  now + maxAgeSeconds when maxAgeSeconds > 0, else 0 (no expiration)". The clock is the third
  argument; the sum is an \<^verbatim>\<open>int64\<close> sum and wraps.
\<close>

definition NewSession :: "bytes \<Rightarrow> int64 \<Rightarrow> int64 \<Rightarrow> pb_Session" where
  "NewSession values maxAge now =
     \<lparr>pb_Values = values,
      pb_ExpiresAt = (if 0 < sint maxAge then now + maxAge else 0)\<rparr>"

text \<open>
  \<^verbatim>\<open>http.Cookie\<close>, as \<^verbatim>\<open>sessions.NewCookie(name, value, options)\<close> fills it: the name,
  the value, and the five attributes copied from the options.
\<close>

record cookie =
  Name :: string
  Value :: string
  Attrs :: options

definition NewCookie :: "string \<Rightarrow> string \<Rightarrow> options \<Rightarrow> cookie" where
  "NewCookie nm v opts = \<lparr>Name = nm, Value = v, Attrs = opts\<rparr>"

text \<open>
  The request is the list of cookies it carries, in header order; \<^verbatim>\<open>r.Cookie(name)\<close>
  returns the first cookie of that name, or \<^verbatim>\<open>ErrNoCookie\<close> (here \<open>None\<close>).
\<close>

type_synonym request = "(string \<times> string) list"

definition Cookie :: "request \<Rightarrow> string \<Rightarrow> string option" where
  "Cookie r nm = map_of r nm"

text \<open>
  The response writer is the list of cookies set on it so far; \<^verbatim>\<open>http.SetCookie\<close> adds
  one \<^verbatim>\<open>Set-Cookie\<close> header.
\<close>

type_synonym response = "cookie list"

definition SetCookie :: "response \<Rightarrow> cookie \<Rightarrow> response" where
  "SetCookie w c = w @ [c]"

text \<open>
  The bucket of the bolt database: a map from key to value. \<^verbatim>\<open>open\<close> creates the bucket
  when the store is built, so \<^verbatim>\<open>tx.Bucket(...)\<close> always finds it.
\<close>

type_synonym bucket = "string \<rightharpoonup> bytes"

text \<open>
  \<^verbatim>\<open>store\<close>: the session options of the configuration and the database. The codec list
  \<^verbatim>\<open>codecs\<close> lives in the environment, inside \<open>EncodeMulti\<close> and \<open>DecodeMulti\<close>.
\<close>

record store =
  config :: options
  db :: bucket

subsection \<open>The environment of one call\<close>

text \<open>
  What the libraries answer while one method runs:
  \<^item> \<open>now\<close>: \<^verbatim>\<open>time.Now().Unix()\<close>;
  \<^item> \<open>GenerateRandomKey n\<close>: \<^verbatim>\<open>securecookie.GenerateRandomKey(n)\<close>, \<open>n\<close> random bytes, or
    \<^verbatim>\<open>nil\<close> (the empty list) when the random source fails;
  \<^item> \<open>EncodeMulti name value\<close>, \<open>DecodeMulti name value\<close>: the secure-cookie codec with the
    store's codecs; decoding returns the decoded identifier;
  \<^item> \<open>gob_Encode\<close>: gob encoding of the values; \<open>gob_Decode bs vals\<close>: gob decoding of \<open>bs\<close>
    into the map \<open>vals\<close>, returning the error and the map as the decoder left it;
  \<^item> \<open>proto_Marshal\<close>, \<open>proto_Unmarshal\<close>: the protocol-buffer codec of the wire record;
  \<^item> \<open>tx_begin\<close>, \<open>tx_commit\<close>: the error, if any, of opening and of committing the
    transaction of \<^verbatim>\<open>db.Update\<close>;
  \<^item> \<open>bucket_Put key value\<close>, \<open>bucket_Delete key\<close>: the error, if any, of
    \<^verbatim>\<open>Bucket.Put\<close> and \<^verbatim>\<open>Bucket.Delete\<close>.
\<close>

record ('k, 'x) env =
  now :: int64
  GenerateRandomKey :: "nat \<Rightarrow> bytes"
  EncodeMulti :: "string \<Rightarrow> string \<Rightarrow> error + string"
  DecodeMulti :: "string \<Rightarrow> string \<Rightarrow> error + string"
  gob_Encode :: "('k \<rightharpoonup> 'x) \<Rightarrow> error + bytes"
  gob_Decode :: "bytes \<Rightarrow> ('k \<rightharpoonup> 'x) \<Rightarrow> error option \<times> ('k \<rightharpoonup> 'x)"
  proto_Marshal :: "pb_Session \<Rightarrow> error + bytes"
  proto_Unmarshal :: "bytes \<Rightarrow> error + pb_Session"
  tx_begin :: "error option"
  tx_commit :: "error option"
  bucket_Put :: "string \<Rightarrow> bytes \<Rightarrow> error option"
  bucket_Delete :: "string \<Rightarrow> error option"

subsection \<open>Base 32 and trimming\<close>

text \<open>
  \<^verbatim>\<open>base32.StdEncoding\<close> of Go's library (RFC 4648): the alphabet, the eight five-bit
  values of a quantum of up to five bytes (a byte that is missing contributes no bit), and
  the padding of the last quantum.
\<close>

definition encodeStd :: string where
  "encodeStd = ''ABCDEFGHIJKLMNOPQRSTUVWXYZ234567''"

definition byte_at :: "bytes \<Rightarrow> nat \<Rightarrow> byte" where
  "byte_at src i = (if i < length src then src ! i else 0)"

definition quantum :: "bytes \<Rightarrow> byte list" where
  "quantum src =
     (let s0 = byte_at src 0; s1 = byte_at src 1; s2 = byte_at src 2;
          s3 = byte_at src 3; s4 = byte_at src 4
      in [drop_bit 3 s0,
          (push_bit 2 s0 AND 0x1F) OR (drop_bit 6 s1 AND 0x1F),
          drop_bit 1 s1 AND 0x1F,
          (push_bit 4 s1 AND 0x1F) OR (drop_bit 4 s2 AND 0x1F),
          (push_bit 1 s2 AND 0x1F) OR drop_bit 7 s3,
          drop_bit 2 s3 AND 0x1F,
          (push_bit 3 s3 AND 0x1F) OR drop_bit 5 s4,
          s4 AND 0x1F])"

text \<open>The number of characters of a quantum of \<open>n\<close> bytes that are not padding.\<close>

definition quantum_chars :: "nat \<Rightarrow> nat" where
  "quantum_chars n =
     (if n < 2 then 2 else if n < 3 then 4 else if n < 4 then 5 else if n < 5 then 7 else 8)"

fun EncodeToString :: "bytes \<Rightarrow> string" where
  "EncodeToString [] = []"
| "EncodeToString (b # bs) =
     (let src = b # bs;
          dst = map (\<lambda>v. encodeStd ! unat v) (quantum (take 5 src))
      in if length src < 5
         then take (quantum_chars (length src)) dst
              @ replicate (8 - quantum_chars (length src)) (CHR ''='')
         else dst @ EncodeToString (drop 5 src))"

text \<open>\<^verbatim>\<open>strings.TrimRight(s, cutset)\<close>: \<open>s\<close> without its trailing characters of \<open>cutset\<close>.\<close>

definition TrimRight :: "string \<Rightarrow> string \<Rightarrow> string" where
  "TrimRight s cutset = rev (dropWhile (\<lambda>c. c \<in> set cutset) (rev s))"

subsection \<open>The database transaction\<close>

text \<open>
  \<^verbatim>\<open>db.Update(fn)\<close> of bolt: open a read-write transaction, run \<open>fn\<close> on the bucket, and
  commit when \<open>fn\<close> returned \<^verbatim>\<open>nil\<close>. When the transaction cannot be opened \<open>fn\<close> does not
  run. When \<open>fn\<close> or the commit returns an error the transaction is rolled back: the
  bucket is as before. The third component is the state of the Go variables \<open>fn\<close> captures
  and assigns; a rollback does not undo those assignments.
\<close>

definition Update ::
  "('k, 'x) env \<Rightarrow> bucket \<Rightarrow> (bucket \<Rightarrow> 's \<Rightarrow> error option \<times> bucket \<times> 's) \<Rightarrow> 's
     \<Rightarrow> error option \<times> bucket \<times> 's" where
  "Update e b fn st =
     (case tx_begin e of
        Some err \<Rightarrow> (Some err, b, st)
      | None \<Rightarrow>
          (case fn b st of
             (Some err, b', st') \<Rightarrow> (Some err, b, st')
           | (None, b', st') \<Rightarrow>
               (case tx_commit e of
                  Some err \<Rightarrow> (Some err, b, st')
                | None \<Rightarrow> (None, b', st'))))"

text \<open>\<^verbatim>\<open>Bucket.Delete(key)\<close> and \<^verbatim>\<open>Bucket.Put(key, value)\<close> inside a transaction.\<close>

definition Delete :: "('k, 'x) env \<Rightarrow> bucket \<Rightarrow> string \<Rightarrow> error option \<times> bucket" where
  "Delete e b key =
     (case bucket_Delete e key of
        Some err \<Rightarrow> (Some err, b)
      | None \<Rightarrow> (None, b(key := None)))"

definition Put :: "('k, 'x) env \<Rightarrow> bucket \<Rightarrow> string \<Rightarrow> bytes \<Rightarrow> error option \<times> bucket" where
  "Put e b key v =
     (case bucket_Put e key v of
        Some err \<Rightarrow> (Some err, b)
      | None \<Rightarrow> (None, b(key \<mapsto> v)))"

subsection \<open>The store's private methods\<close>

text \<open>
  The function literal of \<^verbatim>\<open>load\<close>. Its captured state is the pair of the variable
  \<^verbatim>\<open>exists\<close> and of \<^verbatim>\<open>session.Values\<close>.
\<close>

definition load_fn ::
  "('k, 'x) env \<Rightarrow> string \<Rightarrow> bucket \<Rightarrow> bool \<times> ('k \<rightharpoonup> 'x)
     \<Rightarrow> error option \<times> bucket \<times> bool \<times> ('k \<rightharpoonup> 'x)" where
  "load_fn e id' b st =
     (case b id' of
        None \<Rightarrow> (None, b, st)
      | Some data \<Rightarrow>
          (case proto_Unmarshal e data of
             Inl err \<Rightarrow> (Some err, b, st)
           | Inr sessionData \<Rightarrow>
               if 0 < sint (pb_ExpiresAt sessionData)
                  \<and> sint (pb_ExpiresAt sessionData) < sint (now e)
               then (case Delete e b id' of
                       (Some err, b') \<Rightarrow> (Some err, b', st)
                     | (None, b') \<Rightarrow> (None, b', st))
               else (case gob_Decode e (pb_Values sessionData) (snd st) of
                       (err, vals) \<Rightarrow> (err, b, True, vals))))"

text \<open>
  \<^verbatim>\<open>load\<close> returns the pair \<^verbatim>\<open>(exists, err)\<close>, and here also the store and the session
  as it left them.
\<close>

definition load ::
  "('k, 'x) env \<Rightarrow> store \<Rightarrow> ('k, 'x) session
     \<Rightarrow> (bool \<times> error option) \<times> store \<times> ('k, 'x) session" where
  "load e s session =
     (case Update e (db s) (load_fn e (ID session)) (False, Values session) of
        (err, b, exists, vals) \<Rightarrow>
          ((exists, err), s\<lparr>db := b\<rparr>, session\<lparr>Values := vals\<rparr>))"

definition delete :: "('k, 'x) env \<Rightarrow> store \<Rightarrow> ('k, 'x) session \<Rightarrow> error option \<times> store" where
  "delete e s session =
     (case Update e (db s)
             (\<lambda>b u. case Delete e b (ID session) of (err, b') \<Rightarrow> (err, b', u)) ()
      of (err, b, u) \<Rightarrow>
          (case err of
             Some err' \<Rightarrow> (Some err', s\<lparr>db := b\<rparr>)
           | None \<Rightarrow> (None, s\<lparr>db := b\<rparr>)))"

text \<open>
  \<^verbatim>\<open>save\<close>: an error of the gob encoder is returned; on an error of \<^verbatim>\<open>proto.Marshal\<close>
  the source returns \<^verbatim>\<open>nil\<close>; otherwise the record is put under the identifier.
\<close>

definition save :: "('k, 'x) env \<Rightarrow> store \<Rightarrow> ('k, 'x) session \<Rightarrow> error option \<times> store" where
  "save e s session =
     (case gob_Encode e (Values session) of
        Inl err \<Rightarrow> (Some err, s)
      | Inr buf \<Rightarrow>
          (case proto_Marshal e (NewSession buf (MaxAge (Options session)) (now e)) of
             Inl err \<Rightarrow> (None, s)
           | Inr data \<Rightarrow>
               (case Update e (db s)
                       (\<lambda>b u. case Put e b (ID session) data of (err, b') \<Rightarrow> (err, b', u)) ()
                of (err, b, u) \<Rightarrow> (err, s\<lparr>db := b\<rparr>))))"

subsection \<open>The store's public methods\<close>

text \<open>
  \<^verbatim>\<open>sessions.NewSession(store, name)\<close>: a session with an empty values map. \<^verbatim>\<open>New\<close>
  then points its options at the configuration's and sets \<^verbatim>\<open>IsNew\<close>. The methods of the
  store never assign to the options, so the session holds them by value here.
\<close>

definition sessions_NewSession :: "string \<Rightarrow> ('k, 'x) session" where
  "sessions_NewSession nm =
     \<lparr>ID = [], Values = Map.empty,
      Options = \<lparr>Path = [], Domain = [], MaxAge = 0, Secure = False, HttpOnly = False\<rparr>,
      IsNew = False, name = nm\<rparr>"

text \<open>
  \<^verbatim>\<open>New\<close> returns the session and the error, and here also the store. In the source the
  result of \<^verbatim>\<open>load\<close> is bound with \<^verbatim>\<open>ok, err := s.load(session)\<close> inside the inner
  block: that \<^verbatim>\<open>err\<close> is a new variable, and the \<^verbatim>\<open>err\<close> that \<^verbatim>\<open>New\<close> returns is
  still the result of \<^verbatim>\<open>DecodeMulti\<close>, which is \<^verbatim>\<open>nil\<close> on that path.
\<close>

definition New ::
  "('k, 'x) env \<Rightarrow> store \<Rightarrow> request \<Rightarrow> string
     \<Rightarrow> ('k, 'x) session \<times> error option \<times> store" where
  "New e s r nm =
     (let session = (sessions_NewSession nm)\<lparr>Options := config s, IsNew := True\<rparr>
      in case Cookie r nm of
           None \<Rightarrow> (session, None, s)
         | Some c \<Rightarrow>
             (case DecodeMulti e nm c of
                Inl err \<Rightarrow> (session, Some err, s)
              | Inr id' \<Rightarrow>
                  (case load e s (session\<lparr>ID := id'\<rparr>) of
                     ((ok, err'), s', session') \<Rightarrow>
                       (session'\<lparr>IsNew := \<not> (err' = None \<and> ok)\<rparr>, None, s'))))"

text \<open>
  \<^verbatim>\<open>Get\<close> goes through the registry of the request, \<^verbatim>\<open>sessions.GetRegistry(r).Get(s, name)\<close>:
  a session already registered under the name is returned with the error stored beside it;
  otherwise \<^verbatim>\<open>New\<close> runs and its result is registered.
\<close>

type_synonym ('k, 'x) registry = "string \<rightharpoonup> ('k, 'x) session \<times> error option"

definition Get ::
  "('k, 'x) env \<Rightarrow> store \<Rightarrow> ('k, 'x) registry \<Rightarrow> request \<Rightarrow> string
     \<Rightarrow> (('k, 'x) session \<times> error option) \<times> store \<times> ('k, 'x) registry" where
  "Get e s reg r nm =
     (case reg nm of
        Some info \<Rightarrow> (info, s, reg)
      | None \<Rightarrow>
          (case New e s r nm of
             (session, err, s') \<Rightarrow>
               ((session\<lparr>name := nm\<rparr>, err), s', reg(nm \<mapsto> (session\<lparr>name := nm\<rparr>, err)))))"

text \<open>
  \<^verbatim>\<open>Save\<close> returns the error, and here also the store, the response and the session. The
  result of \<^verbatim>\<open>s.delete(session)\<close> is not used in the source. The request is not read.
\<close>

definition Save ::
  "('k, 'x) env \<Rightarrow> store \<Rightarrow> request \<Rightarrow> response \<Rightarrow> ('k, 'x) session
     \<Rightarrow> error option \<times> store \<times> response \<times> ('k, 'x) session" where
  "Save e s r w session =
     (if sint (MaxAge (Options session)) < 0
      then (case delete e s session of
              (err, s') \<Rightarrow>
                (None, s', SetCookie w (NewCookie (name session) [] (Options session)),
                 session))
      else
        (let session1 =
               (if ID session = []
                then session\<lparr>ID := TrimRight (EncodeToString (GenerateRandomKey e 32)) ''=''\<rparr>
                else session)
         in case save e s session1 of
              (Some err, s') \<Rightarrow> (Some err, s', w, session1)
            | (None, s') \<Rightarrow>
                (case EncodeMulti e (name session1) (ID session1) of
                   Inl err \<Rightarrow> (Some err, s', w, session1)
                 | Inr encoded \<Rightarrow>
                     (None, s',
                      SetCookie w (NewCookie (name session1) encoded (Options session1)),
                      session1))))"

subsection \<open>Predicates of the claims\<close>

text \<open>A character is alphanumeric: an ASCII letter or digit.\<close>

definition isAlnum :: "char \<Rightarrow> bool" where
  "isAlnum c =
     (c \<in> set ''ABCDEFGHIJKLMNOPQRSTUVWXYZabcdefghijklmnopqrstuvwxyz0123456789'')"

subsection \<open>A concrete environment\<close>

text \<open>
  A small instance of the environment, for running the methods on concrete inputs: the
  values map strings to strings; the cookie codec writes the name, a bar and the value; the
  gob codec carries the entry under the key \<open>uid\<close>; the wire record is the eight bytes of
  the expiration time, low byte first, followed by the values; the database never fails.
\<close>

definition byte_of_char :: "char \<Rightarrow> byte" where
  "byte_of_char c = of_nat (of_char c)"

definition char_of_byte :: "byte \<Rightarrow> char" where
  "char_of_byte b = char_of (unat b)"

definition int64_bytes :: "int64 \<Rightarrow> bytes" where
  "int64_bytes v = map (\<lambda>i. ucast (drop_bit (8 * i) v)) [0..<8]"

definition bytes_int64 :: "bytes \<Rightarrow> int64" where
  "bytes_int64 bs = foldr (\<lambda>b acc. ucast b OR push_bit 8 acc) bs 0"

fun strip_prefix :: "string \<Rightarrow> string \<Rightarrow> string option" where
  "strip_prefix [] ys = Some ys"
| "strip_prefix (x # xs) [] = None"
| "strip_prefix (x # xs) (y # ys) = (if x = y then strip_prefix xs ys else None)"

definition test_env :: "int64 \<Rightarrow> (string, string) env" where
  "test_env t =
     \<lparr>now = t,
      GenerateRandomKey = (\<lambda>n. map (\<lambda>i. of_nat (7 * i + 3)) [0..<n]),
      EncodeMulti = (\<lambda>nm v. Inr (nm @ ''|'' @ v)),
      DecodeMulti = (\<lambda>nm c. case strip_prefix (nm @ ''|'') c of
                                Some v \<Rightarrow> Inr v
                              | None \<Rightarrow> Inl (Error ''securecookie: the value is not valid'')),
      gob_Encode = (\<lambda>vals. Inr (case vals ''uid'' of
                                    None \<Rightarrow> []
                                  | Some v \<Rightarrow> map byte_of_char v)),
      gob_Decode = (\<lambda>bs vals. (None, if bs = [] then vals
                                       else vals(''uid'' \<mapsto> map char_of_byte bs))),
      proto_Marshal = (\<lambda>sd. Inr (int64_bytes (pb_ExpiresAt sd) @ pb_Values sd)),
      proto_Unmarshal = (\<lambda>data. if length data < 8
                                  then Inl (Error ''proto: unexpected end of input'')
                                  else Inr \<lparr>pb_Values = drop 8 data,
                                            pb_ExpiresAt = bytes_int64 (take 8 data)\<rparr>),
      tx_begin = None,
      tx_commit = None,
      bucket_Put = (\<lambda>key v. None),
      bucket_Delete = (\<lambda>key. None)\<rparr>"

definition test_options :: options where
  "test_options = \<lparr>Path = ''/'', Domain = [], MaxAge = 3600, Secure = False, HttpOnly = True\<rparr>"

definition test_store :: store where
  "test_store = \<lparr>config = test_options, db = Map.empty\<rparr>"

text \<open>The session of a first request, after the application has stored one value in it.\<close>

definition test_session :: "(string, string) session" where
  "test_session =
     (fst (New (test_env 1000) test_store [] ''app''))\<lparr>Values := [''uid'' \<mapsto> ''42'']\<rparr>"

text \<open>The result of saving that session at time 1000, and the request that follows.\<close>

definition saved :: "error option \<times> store \<times> response \<times> (string, string) session" where
  "saved = Save (test_env 1000) test_store [] [] test_session"

definition saved_store :: store where
  "saved_store = fst (snd saved)"

definition saved_response :: response where
  "saved_response = fst (snd (snd saved))"

definition saved_session :: "(string, string) session" where
  "saved_session = snd (snd (snd saved))"

definition next_request :: request where
  "next_request = map (\<lambda>c. (Name c, Value c)) saved_response"

text \<open>
  A store whose bucket holds, under \<open>abc\<close>, a record that expired one second before the
  epoch: its expiration time is \<open>- 1\<close>.
\<close>

definition epoch_store :: store where
  "epoch_store =
     \<lparr>config = test_options,
      db = [''abc'' \<mapsto> int64_bytes (- 1) @ map byte_of_char ''42'']\<rparr>"

text \<open>
  The environment at time 1000 in which the random source fails and \<^verbatim>\<open>Bucket.Put\<close> answers
  as bolt does: an empty key is refused with \<^verbatim>\<open>ErrKeyRequired\<close>.
\<close>

definition no_key_env :: "(string, string) env" where
  "no_key_env =
     (test_env 1000)
       \<lparr>GenerateRandomKey := \<lambda>n. [],
        bucket_Put := \<lambda>key v. if key = [] then Some (Error ''key required'') else None\<rparr>"

section \<open>Properties\<close>

subsection \<open>Identifiers\<close>

text \<open>The test vectors of RFC 4648 for base 32.\<close>

lemma EncodeToString_rfc4648:
  "EncodeToString (map byte_of_char []) = []
   \<and> EncodeToString (map byte_of_char ''f'') = ''MY======''
   \<and> EncodeToString (map byte_of_char ''fo'') = ''MZXQ====''
   \<and> EncodeToString (map byte_of_char ''foo'') = ''MZXW6===''
   \<and> EncodeToString (map byte_of_char ''foob'') = ''MZXW6YQ=''
   \<and> EncodeToString (map byte_of_char ''fooba'') = ''MZXW6YTB''
   \<and> EncodeToString (map byte_of_char ''foobar'') = ''MZXW6YTBOI======''"
  by code_simp

lemma unat_lt_32:
  assumes "drop_bit 5 (v::byte) = 0"
  shows "unat v < 32"
proof -
  have "drop_bit 5 (unat v) = unat (drop_bit 5 v)"
    by (rule unat_drop_bit_eq [symmetric])
  also have "\<dots> = 0"
    using assms by simp
  finally have "unat v div 2 ^ 5 = 0"
    by (simp only: drop_bit_eq_div)
  then show ?thesis by simp
qed

lemma quantum_high_bits: "v \<in> set (quantum src) \<Longrightarrow> drop_bit 5 v = 0"
  unfolding quantum_def Let_def
  by (auto intro!: bit_eqI simp: bit_simps dest: bit_imp_le_length)

lemma length_quantum: "length (quantum src) = 8"
  by (simp add: quantum_def Let_def)

lemma nth_encodeStd: "n < 32 \<Longrightarrow> encodeStd ! n \<in> set encodeStd"
  by (simp add: encodeStd_def del: set_simps)

lemma quantum_encodeStd:
  "c \<in> set (map (\<lambda>v. encodeStd ! unat v) (quantum src)) \<Longrightarrow> c \<in> set encodeStd"
  using nth_encodeStd unat_lt_32 quantum_high_bits by auto

lemma quantum_chars_eq:
  assumes "0 < n" "n < 5"
  shows "quantum_chars n = (8 * n + 4) div 5"
proof -
  have "n = 1 \<or> n = 2 \<or> n = 3 \<or> n = 4"
    using assms by arith
  then show ?thesis
    by (auto simp: quantum_chars_def)
qed

lemma quantum_chars_le: "quantum_chars n \<le> 8"
  by (simp add: quantum_chars_def)

text \<open>
  The encoding is a run of alphabet characters, eight for every five bytes rounded up,
  followed by padding only.
\<close>

lemma EncodeToString_shape:
  "\<exists>body k. EncodeToString src = body @ replicate k (CHR ''='')
      \<and> set body \<subseteq> set encodeStd \<and> length body = (8 * length src + 4) div 5"
proof (induction src rule: EncodeToString.induct)
  case 1
  show ?case by simp
next
  case (2 b bs)
  let ?src = "b # bs"
  let ?dst = "map (\<lambda>v. encodeStd ! unat v) (quantum (take 5 ?src))"
  have std: "set ?dst \<subseteq> set encodeStd"
    using quantum_encodeStd by blast
  have len: "length ?dst = 8"
    by (simp add: length_quantum)
  show ?case
  proof (cases "length ?src < 5")
    case True
    have "EncodeToString ?src = take (quantum_chars (length ?src)) ?dst
              @ replicate (8 - quantum_chars (length ?src)) (CHR ''='')"
      using True by (simp add: Let_def)
    moreover have "set (take (quantum_chars (length ?src)) ?dst) \<subseteq> set encodeStd"
      using std set_take_subset by fast
    moreover have "length (take (quantum_chars (length ?src)) ?dst) = (8 * length ?src + 4) div 5"
      using True len quantum_chars_eq [of "length ?src"] quantum_chars_le [of "length ?src"]
      by simp
    ultimately show ?thesis by blast
  next
    case False
    from 2 [OF refl refl False] obtain body k where
      ih: "EncodeToString (drop 5 ?src) = body @ replicate k (CHR ''='')"
        "set body \<subseteq> set encodeStd" "length body = (8 * length (drop 5 ?src) + 4) div 5"
      by blast
    have "EncodeToString ?src = (?dst @ body) @ replicate k (CHR ''='')"
      using False ih(1) by (simp add: Let_def)
    moreover have "set (?dst @ body) \<subseteq> set encodeStd"
      using std ih(2) by simp
    moreover have "length (?dst @ body) = (8 * length ?src + 4) div 5"
      using False ih(3) len by simp
    ultimately show ?thesis by blast
  qed
qed

lemma TrimRight_padding:
  assumes "CHR ''='' \<notin> set body"
  shows "TrimRight (body @ replicate k (CHR ''='')) ''='' = body"
proof -
  have "dropWhile (\<lambda>c. c \<in> set ''='') (rev body) = rev body"
    using assms by (cases "rev body") auto
  then show ?thesis
    by (simp add: TrimRight_def dropWhile_append3 dropWhile_append)
qed

lemma encodeStd_isAlnum: "c \<in> set encodeStd \<Longrightarrow> isAlnum c"
  by (auto simp: encodeStd_def isAlnum_def)

lemma encodeStd_no_padding: "CHR ''='' \<notin> set encodeStd"
  by (simp add: encodeStd_def)

lemma identifier_of_key:
  assumes "length key = 32"
  shows "length (TrimRight (EncodeToString key) ''='') = 52
         \<and> list_all isAlnum (TrimRight (EncodeToString key) ''='')"
proof -
  obtain body k where
    enc: "EncodeToString key = body @ replicate k (CHR ''='')"
    and std: "set body \<subseteq> set encodeStd"
    and len: "length body = (8 * length key + 4) div 5"
    using EncodeToString_shape by blast
  have "CHR ''='' \<notin> set body"
    using std encodeStd_no_padding by blast
  then have trim: "TrimRight (EncodeToString key) ''='' = body"
    by (simp add: enc TrimRight_padding)
  have "length body = 52"
    using len assms by simp
  moreover have "list_all isAlnum body"
    using std encodeStd_isAlnum by (auto simp: list_all_iff)
  ultimately show ?thesis
    by (simp add: trim)
qed

text \<open>Above the delete path, \<^verbatim>\<open>Save\<close> returns the session with its identifier settled.\<close>

lemma Save_session:
  assumes "\<not> sint (MaxAge (Options session)) < 0"
  shows "snd (snd (snd (Save e s r w session))) =
           (if ID session = []
            then session\<lparr>ID := TrimRight (EncodeToString (GenerateRandomKey e 32)) ''=''\<rparr>
            else session)"
  using assms
  by (simp add: Save_def Let_def split: prod.splits option.splits sum.splits)

text \<open>
  C8. A session whose identifier is empty when it is saved, with a max-age that is not
  negative, gets the base-32 encoding of the 32 random bytes, without the trailing padding,
  as its identifier: 52 characters, all of them letters or digits, so not the empty string.
\<close>

theorem Save_assigns_identifier:
  assumes "0 \<le> sint (MaxAge (Options session))"
    and "ID session = []"
    and "length (GenerateRandomKey e 32) = 32"
  shows "case Save e s r w session of
           (err, s', w', session') \<Rightarrow>
             ID session' = TrimRight (EncodeToString (GenerateRandomKey e 32)) ''=''
             \<and> ID session' \<noteq> []
             \<and> length (ID session') = 52
             \<and> list_all isAlnum (ID session')"
proof -
  have "snd (snd (snd (Save e s r w session))) =
          session\<lparr>ID := TrimRight (EncodeToString (GenerateRandomKey e 32)) ''=''\<rparr>"
    using assms(1,2) by (simp add: Save_session)
  moreover have "length (TrimRight (EncodeToString (GenerateRandomKey e 32)) ''='') = 52"
    and "list_all isAlnum (TrimRight (EncodeToString (GenerateRandomKey e 32)) ''='')"
    using identifier_of_key [OF assms(3)] by simp_all
  ultimately show ?thesis
    by (auto split: prod.splits)
qed

theorem Save_assigns_identifier_witness:
  "0 \<le> sint (MaxAge (Options test_session))
   \<and> ID test_session = []
   \<and> length (GenerateRandomKey (test_env 1000) 32) = 32
   \<and> (case Save (test_env 1000) test_store [] [] test_session of
         (err, s', w', session') \<Rightarrow>
           ID session' = TrimRight (EncodeToString (GenerateRandomKey (test_env 1000) 32)) ''=''
           \<and> ID session' \<noteq> []
           \<and> length (ID session') = 52
           \<and> list_all isAlnum (ID session'))"
proof -
  have h1: "0 \<le> sint (MaxAge (Options test_session))"
    by (simp add: test_session_def New_def Cookie_def Let_def test_store_def test_options_def)
  have h2: "ID test_session = []"
    by (simp add: test_session_def New_def Cookie_def Let_def sessions_NewSession_def)
  have h3: "length (GenerateRandomKey (test_env 1000) 32) = 32"
    by (simp add: test_env_def)
  show ?thesis
    using h1 h2 h3 Save_assigns_identifier [OF h1 h2 h3, of test_store "[]" "[]"]
    by simp
qed

subsection \<open>Cookies that do not decode\<close>

text \<open>
  C7. When the request carries a cookie of the given name and the secure-cookie codec
  rejects it, \<^verbatim>\<open>New\<close> returns a session that is new, with no identifier and no values, and
  the error of the codec; the store is not touched.
\<close>

theorem New_cookie_decode_error:
  assumes "Cookie r nm = Some c"
    and "DecodeMulti e nm c = Inl err"
  shows "case New e s r nm of
           (session, err', s') \<Rightarrow>
             IsNew session \<and> Values session = Map.empty \<and> ID session = []
             \<and> err' = Some err \<and> s' = s"
  using assms by (simp add: New_def Let_def sessions_NewSession_def)

theorem New_cookie_decode_error_witness:
  "Cookie [(''app'', ''tampered'')] ''app'' = Some ''tampered''
   \<and> DecodeMulti (test_env 1000) ''app'' ''tampered''
       = Inl (Error ''securecookie: the value is not valid'')
   \<and> (case New (test_env 1000) test_store [(''app'', ''tampered'')] ''app'' of
         (session, err', s') \<Rightarrow>
           IsNew session \<and> Values session = Map.empty \<and> ID session = []
           \<and> err' = Some (Error ''securecookie: the value is not valid'') \<and> s' = test_store)"
proof -
  have h1: "Cookie [(''app'', ''tampered'')] ''app'' = Some ''tampered''"
    by (simp add: Cookie_def)
  have h2: "DecodeMulti (test_env 1000) ''app'' ''tampered''
              = Inl (Error ''securecookie: the value is not valid'')"
    by (simp add: test_env_def)
  show ?thesis
    using h1 h2 New_cookie_decode_error [OF h1 h2, where s = test_store] by simp
qed

subsection \<open>Deleting a session\<close>

lemma delete_result:
  "delete e s session =
     (case tx_begin e of
        Some err \<Rightarrow> (Some err, s)
      | None \<Rightarrow>
          (case bucket_Delete e (ID session) of
             Some err \<Rightarrow> (Some err, s)
           | None \<Rightarrow>
               (case tx_commit e of
                  Some err \<Rightarrow> (Some err, s)
                | None \<Rightarrow> (None, s\<lparr>db := (db s)(ID session := None)\<rparr>))))"
  by (simp add: delete_def Update_def Delete_def split: option.splits)

lemma delete_absent: "db s (ID session) = None \<Longrightarrow> snd (delete e s session) = s"
proof -
  assume "db s (ID session) = None"
  then have "(db s)(ID session := None) = db s"
    by (simp add: fun_upd_idem)
  then show ?thesis
    by (simp add: delete_result split: option.splits)
qed

lemma delete_success:
  assumes "tx_begin e = None" "bucket_Delete e (ID session) = None" "tx_commit e = None"
  shows "db (snd (delete e s session)) = (db s)(ID session := None)"
  using assms by (simp add: delete_result)

lemma Save_delete_path:
  assumes "sint (MaxAge (Options session)) < 0"
  shows "Save e s r w session =
           (None, snd (delete e s session),
            w @ [\<lparr>Name = name session, Value = [], Attrs = Options session\<rparr>], session)"
  using assms by (simp add: Save_def SetCookie_def NewCookie_def split: prod.splits)

text \<open>
  C6. With a negative max-age \<^verbatim>\<open>Save\<close> returns \<^verbatim>\<open>nil\<close> and adds to the response a
  cookie of the session's name with the empty value and the session's options, so with
  the same negative max-age. When the transaction and the delete succeed, the record of
  the session's identifier is gone from the bucket and nothing else has changed; when
  there was no record, the bucket is as before. A second \<^verbatim>\<open>Save\<close> of the session on the
  resulting store returns \<^verbatim>\<open>nil\<close> again.
\<close>

theorem Save_negative_max_age:
  assumes "sint (MaxAge (Options session)) < 0"
  shows "case Save e s r w session of
           (err, s', w', session') \<Rightarrow>
             err = None
             \<and> w' = w @ [\<lparr>Name = name session, Value = [], Attrs = Options session\<rparr>]
             \<and> Value (last w') = [] \<and> MaxAge (Attrs (last w')) = MaxAge (Options session)
             \<and> session' = session
             \<and> (tx_begin e = None \<and> bucket_Delete e (ID session) = None
                  \<and> tx_commit e = None
                \<longrightarrow> db s' = (db s)(ID session := None))
             \<and> (db s (ID session) = None \<longrightarrow> s' = s)
             \<and> fst (Save e2 s' r2 w2 session') = None"
  using assms
  by (simp add: Save_delete_path delete_success delete_absent)

theorem Save_negative_max_age_witness:
  "sint (MaxAge (Options (saved_session\<lparr>Options := (Options saved_session)\<lparr>MaxAge := - 1\<rparr>\<rparr>))) < 0
   \<and> tx_begin (test_env 2000) = None
   \<and> bucket_Delete (test_env 2000) (ID saved_session) = None
   \<and> tx_commit (test_env 2000) = None
   \<and> (case Save (test_env 2000) saved_store [] []
              (saved_session\<lparr>Options := (Options saved_session)\<lparr>MaxAge := - 1\<rparr>\<rparr>) of
         (err, s', w', session') \<Rightarrow>
           err = None
           \<and> Value (last w') = [] \<and> MaxAge (Attrs (last w')) = - 1
           \<and> db s' = (db saved_store)(ID saved_session := None)
           \<and> fst (Save (test_env 3000) s' [] [] session') = None)"
proof -
  let ?session = "saved_session\<lparr>Options := (Options saved_session)\<lparr>MaxAge := - 1\<rparr>\<rparr>"
  have h: "sint (MaxAge (Options ?session)) < 0"
    by simp
  have ok: "tx_begin (test_env 2000) = None"
    "bucket_Delete (test_env 2000) (ID saved_session) = None"
    "tx_commit (test_env 2000) = None"
    by (simp_all add: test_env_def)
  show ?thesis
    using h ok
      Save_negative_max_age [OF h, where e = "test_env 2000" and s = saved_store and r = "[]"
        and w = "[]" and ?e2.0 = "test_env 3000" and ?r2.0 = "[]" and ?w2.0 = "[]"]
    by (simp split: prod.splits)
qed

subsection \<open>Loading a session\<close>

text \<open>The four ways through \<^verbatim>\<open>load\<close>, by the record found under the identifier.\<close>

lemma load_absent:
  assumes "db s (ID session) = None"
  shows "load e s session =
           ((False, case tx_begin e of Some err \<Rightarrow> Some err | None \<Rightarrow> tx_commit e),
            s, session)"
  using assms
  by (simp add: load_def Update_def load_fn_def split: option.splits)

lemma load_malformed:
  assumes "db s (ID session) = Some data"
    and "proto_Unmarshal e data = Inl err"
  shows "load e s session =
           ((False, case tx_begin e of Some err' \<Rightarrow> Some err' | None \<Rightarrow> Some err),
            s, session)"
  using assms
  by (simp add: load_def Update_def load_fn_def split: option.splits)

lemma load_expired:
  assumes "db s (ID session) = Some data"
    and "proto_Unmarshal e data = Inr sd"
    and "0 < sint (pb_ExpiresAt sd)"
    and "sint (pb_ExpiresAt sd) < sint (now e)"
  shows "load e s session =
           (case tx_begin e of
              Some err \<Rightarrow> ((False, Some err), s, session)
            | None \<Rightarrow>
                (case bucket_Delete e (ID session) of
                   Some err \<Rightarrow> ((False, Some err), s, session)
                 | None \<Rightarrow>
                     (case tx_commit e of
                        Some err \<Rightarrow> ((False, Some err), s, session)
                      | None \<Rightarrow>
                          ((False, None), s\<lparr>db := (db s)(ID session := None)\<rparr>, session))))"
  using assms
  by (simp add: load_def Update_def load_fn_def Delete_def split: option.splits)

lemma load_fn_valid:
  assumes "b sid = Some data"
    and "proto_Unmarshal e data = Inr sd"
    and "\<not> (0 < sint (pb_ExpiresAt sd) \<and> sint (pb_ExpiresAt sd) < sint (now e))"
  shows "load_fn e sid b st =
           (fst (gob_Decode e (pb_Values sd) (snd st)), b, True,
            snd (gob_Decode e (pb_Values sd) (snd st)))"
proof -
  have "load_fn e sid b st =
          (case gob_Decode e (pb_Values sd) (snd st) of (err, vals) \<Rightarrow> (err, b, True, vals))"
    unfolding load_fn_def using assms(1,2) by (simp add: if_not_P [OF assms(3)])
  then show ?thesis
    by (simp add: case_prod_beta)
qed

lemma load_valid:
  assumes "db s (ID session) = Some data"
    and "proto_Unmarshal e data = Inr sd"
    and "\<not> (0 < sint (pb_ExpiresAt sd) \<and> sint (pb_ExpiresAt sd) < sint (now e))"
  shows "load e s session =
           (case tx_begin e of
              Some err \<Rightarrow> ((False, Some err), s, session)
            | None \<Rightarrow>
                (case gob_Decode e (pb_Values sd) (Values session) of
                   (Some err, vals) \<Rightarrow> ((True, Some err), s, session\<lparr>Values := vals\<rparr>)
                 | (None, vals) \<Rightarrow>
                     ((True, tx_commit e), s, session\<lparr>Values := vals\<rparr>)))"
  by (simp add: load_def Update_def load_fn_valid [where b = "db s" and sid = "ID session", OF assms] case_prod_beta
      split: option.splits)

lemma load_frame_absent:
  assumes "db s (ID session) = None"
  shows "case load e s session of
           ((exists, err), s', session') \<Rightarrow>
             \<not> exists \<and> session' = session \<and> s' = s
             \<and> (tx_begin e = None \<and> tx_commit e = None \<longrightarrow> err = None)"
  by (simp add: load_absent [OF assms])

lemma load_frame_expired:
  assumes "db s (ID session) = Some data"
    and "proto_Unmarshal e data = Inr sd"
    and "0 < sint (pb_ExpiresAt sd)"
    and "sint (pb_ExpiresAt sd) < sint (now e)"
  shows "case load e s session of
           ((exists, err), s', session') \<Rightarrow>
             \<not> exists \<and> session' = session
             \<and> (tx_begin e = None \<and> bucket_Delete e (ID session) = None
                  \<and> tx_commit e = None
                \<longrightarrow> err = None \<and> db s' = (db s)(ID session := None))"
  by (simp add: load_expired [OF assms] split: option.splits)

lemma load_changes_values:
  assumes "Values (snd (snd (load e s session))) \<noteq> Values session"
  shows "fst (fst (load e s session))
         \<and> (\<exists>data sd. db s (ID session) = Some data \<and> proto_Unmarshal e data = Inr sd
               \<and> \<not> (0 < sint (pb_ExpiresAt sd) \<and> sint (pb_ExpiresAt sd) < sint (now e))
               \<and> Values (snd (snd (load e s session)))
                   = snd (gob_Decode e (pb_Values sd) (Values session)))"
proof (cases "db s (ID session)")
  case None
  then show ?thesis
    using assms by (simp add: load_absent)
next
  case (Some data)
  show ?thesis
  proof (cases "proto_Unmarshal e data")
    case (Inl err)
    then show ?thesis
      using assms Some by (simp add: load_malformed)
  next
    case (Inr sd)
    show ?thesis
    proof (cases "0 < sint (pb_ExpiresAt sd) \<and> sint (pb_ExpiresAt sd) < sint (now e)")
      case True
      then show ?thesis
        using assms Some Inr by (simp add: load_expired split: option.splits)
    next
      case False
      then show ?thesis
        using assms Some Inr
        by (auto simp: load_valid split: option.splits prod.splits)
    qed
  qed
qed

text \<open>
  C9. When the bucket has no record under the session's identifier, or the record found
  there has an expiration time that is positive and before the clock, \<^verbatim>\<open>load\<close> returns
  \<^verbatim>\<open>false\<close> and leaves the values of the session as they were, and it returns no error
  when the transaction and the delete did not fail. Whenever \<^verbatim>\<open>load\<close> leaves other values
  in the session than it found, the bucket had a record under the identifier that was
  unmarshalled and not expired, \<^verbatim>\<open>load\<close> returns \<^verbatim>\<open>true\<close>, and the values are what the gob
  decoder made of the record's values.
\<close>

theorem load_frame:
  "case load e s session of
     ((exists, err), s', session') \<Rightarrow>
       ((db s (ID session) = None
         \<or> (\<exists>data sd. db s (ID session) = Some data \<and> proto_Unmarshal e data = Inr sd
               \<and> 0 < sint (pb_ExpiresAt sd) \<and> sint (pb_ExpiresAt sd) < sint (now e)))
        \<longrightarrow> \<not> exists \<and> Values session' = Values session
            \<and> (tx_begin e = None \<and> bucket_Delete e (ID session) = None
                 \<and> tx_commit e = None
               \<longrightarrow> err = None))
       \<and> (Values session' \<noteq> Values session
          \<longrightarrow> exists
              \<and> (\<exists>data sd. db s (ID session) = Some data \<and> proto_Unmarshal e data = Inr sd
                    \<and> \<not> (0 < sint (pb_ExpiresAt sd)
                          \<and> sint (pb_ExpiresAt sd) < sint (now e))
                    \<and> Values session' = snd (gob_Decode e (pb_Values sd) (Values session))))"
proof -
  obtain ex err s' session' where l: "load e s session = ((ex, err), s', session')"
    by (metis surj_pair)
  have a: "\<not> ex \<and> Values session' = Values session
           \<and> (tx_begin e = None \<and> bucket_Delete e (ID session) = None \<and> tx_commit e = None
              \<longrightarrow> err = None)"
    if "db s (ID session) = None"
    using load_frame_absent [OF that, of e] l by simp
  have b: "\<not> ex \<and> Values session' = Values session
           \<and> (tx_begin e = None \<and> bucket_Delete e (ID session) = None \<and> tx_commit e = None
              \<longrightarrow> err = None)"
    if "db s (ID session) = Some data" "proto_Unmarshal e data = Inr sd"
      "0 < sint (pb_ExpiresAt sd)" "sint (pb_ExpiresAt sd) < sint (now e)" for data sd
    using load_frame_expired [OF that] l by simp
  have c: "ex \<and> (\<exists>data sd. db s (ID session) = Some data \<and> proto_Unmarshal e data = Inr sd
                    \<and> \<not> (0 < sint (pb_ExpiresAt sd)
                          \<and> sint (pb_ExpiresAt sd) < sint (now e))
                    \<and> Values session' = snd (gob_Decode e (pb_Values sd) (Values session)))"
    if "Values session' \<noteq> Values session"
    using load_changes_values [of e s session] that l by simp
  show ?thesis
    unfolding l prod.case using a b c by blast
qed

theorem load_frame_witness:
  "db test_store (ID test_session) = None
   \<and> tx_begin (test_env 1000) = None
   \<and> bucket_Delete (test_env 1000) (ID test_session) = None
   \<and> tx_commit (test_env 1000) = None
   \<and> \<not> fst (fst (load (test_env 1000) test_store test_session))
   \<and> snd (fst (load (test_env 1000) test_store test_session)) = None
   \<and> Values (snd (snd (load (test_env 1000) test_store test_session))) = Values test_session
   \<and> Values (snd (snd (load (test_env 2000) saved_store (saved_session\<lparr>Values := Map.empty\<rparr>))))
       \<noteq> Values (saved_session\<lparr>Values := Map.empty\<rparr>)
   \<and> fst (fst (load (test_env 2000) saved_store (saved_session\<lparr>Values := Map.empty\<rparr>)))"
proof -
  have h1: "db test_store (ID test_session) = None"
    by (simp add: test_store_def)
  have ok: "tx_begin (test_env 1000) = None"
    "bucket_Delete (test_env 1000) (ID test_session) = None"
    "tx_commit (test_env 1000) = None"
    by (simp_all add: test_env_def)
  have "Values (snd (snd (load (test_env 2000) saved_store (saved_session\<lparr>Values := Map.empty\<rparr>))))
          ''uid'' = Some ''42''"
    by code_simp
  then have h2: "Values (snd (snd (load (test_env 2000) saved_store
                    (saved_session\<lparr>Values := Map.empty\<rparr>))))
                 \<noteq> Values (saved_session\<lparr>Values := Map.empty\<rparr>)"
    by auto
  have a: "\<not> fst (fst (load (test_env 1000) test_store test_session))
           \<and> snd (fst (load (test_env 1000) test_store test_session)) = None
           \<and> Values (snd (snd (load (test_env 1000) test_store test_session)))
               = Values test_session"
    using load_frame [where e = "test_env 1000" and s = test_store and session = test_session]
      h1 ok
    by (auto split: prod.splits)
  have b: "fst (fst (load (test_env 2000) saved_store (saved_session\<lparr>Values := Map.empty\<rparr>)))"
    using load_frame [where e = "test_env 2000" and s = saved_store
        and session = "saved_session\<lparr>Values := Map.empty\<rparr>"] h2
    by (auto split: prod.splits)
  show ?thesis
    using h1 ok a h2 b by blast
qed

subsection \<open>Expired records\<close>

text \<open>
  C5, as the code has it. Let the bucket hold, under an identifier, a record that
  unmarshals and whose expiration time is positive and before the clock. Then \<^verbatim>\<open>load\<close> of a
  session with that identifier returns \<^verbatim>\<open>false\<close> and leaves the session as it was, and
  \<^verbatim>\<open>New\<close> on a request whose cookie decodes to that identifier returns a session that is new
  and has no values. When the transaction and the delete succeed, the record is gone from
  the bucket afterwards and \<^verbatim>\<open>load\<close> returns no error.
\<close>

theorem load_expired_record:
  assumes "db s sid = Some data"
    and "proto_Unmarshal e data = Inr sd"
    and "0 < sint (pb_ExpiresAt sd)"
    and "sint (pb_ExpiresAt sd) < sint (now e)"
    and "ID session = sid"
    and "Cookie r nm = Some c"
    and "DecodeMulti e nm c = Inr sid"
  shows "(case load e s session of
            ((exists, err), s', session') \<Rightarrow>
              \<not> exists \<and> session' = session
              \<and> (tx_begin e = None \<and> bucket_Delete e sid = None \<and> tx_commit e = None
                 \<longrightarrow> err = None \<and> db s' = (db s)(sid := None)))
         \<and> (case New e s r nm of
              (session', err', s') \<Rightarrow>
                IsNew session' \<and> Values session' = Map.empty \<and> err' = None
                \<and> (tx_begin e = None \<and> bucket_Delete e sid = None \<and> tx_commit e = None
                   \<longrightarrow> db s' = (db s)(sid := None)))"
proof -
  have l: "case load e s session of
            ((exists, err), s', session') \<Rightarrow>
              \<not> exists \<and> session' = session
              \<and> (tx_begin e = None \<and> bucket_Delete e sid = None \<and> tx_commit e = None
                 \<longrightarrow> err = None \<and> db s' = (db s)(sid := None))"
    using load_frame_expired [of s session data e sd] assms(1-5) by simp
  let ?fresh = "(sessions_NewSession nm)\<lparr>Options := config s, IsNew := True, ID := sid\<rparr>"
  have "case load e s ?fresh of
            ((exists, err), s', session') \<Rightarrow>
              \<not> exists \<and> session' = ?fresh
              \<and> (tx_begin e = None \<and> bucket_Delete e (ID ?fresh) = None \<and> tx_commit e = None
                 \<longrightarrow> err = None \<and> db s' = (db s)(ID ?fresh := None))"
    using load_frame_expired [of s ?fresh data e sd] assms(1-4) by simp
  then have n: "case New e s r nm of
              (session', err', s') \<Rightarrow>
                IsNew session' \<and> Values session' = Map.empty \<and> err' = None
                \<and> (tx_begin e = None \<and> bucket_Delete e sid = None \<and> tx_commit e = None
                   \<longrightarrow> db s' = (db s)(sid := None))"
    using assms(6,7)
    by (auto simp: New_def Let_def sessions_NewSession_def split: prod.splits)
  show ?thesis
    using l n by simp
qed

theorem load_expired_record_witness:
  "db saved_store (ID saved_session) = Some [248, 17, 0, 0, 0, 0, 0, 0, 52, 50]
   \<and> proto_Unmarshal (test_env 5000) [248, 17, 0, 0, 0, 0, 0, 0, 52, 50]
       = Inr \<lparr>pb_Values = [52, 50], pb_ExpiresAt = 4600\<rparr>
   \<and> 0 < sint (4600 :: int64)
   \<and> sint (4600 :: int64) < sint (now (test_env 5000))
   \<and> Cookie next_request ''app'' = Some (''app|'' @ ID saved_session)
   \<and> DecodeMulti (test_env 5000) ''app'' (''app|'' @ ID saved_session) = Inr (ID saved_session)
   \<and> tx_begin (test_env 5000) = None
   \<and> bucket_Delete (test_env 5000) (ID saved_session) = None
   \<and> tx_commit (test_env 5000) = None
   \<and> (case load (test_env 5000) saved_store saved_session of
         ((exists, err), s', session') \<Rightarrow>
           \<not> exists \<and> session' = saved_session \<and> err = None
           \<and> db s' = (db saved_store)(ID saved_session := None))
   \<and> (case New (test_env 5000) saved_store next_request ''app'' of
         (session', err', s') \<Rightarrow>
           IsNew session' \<and> Values session' = Map.empty \<and> err' = None
           \<and> db s' = (db saved_store)(ID saved_session := None))"
proof -
  have h1: "db saved_store (ID saved_session) = Some [248, 17, 0, 0, 0, 0, 0, 0, 52, 50]"
    by code_simp
  have h2: "proto_Unmarshal (test_env 5000) [248, 17, 0, 0, 0, 0, 0, 0, 52, 50]
              = Inr \<lparr>pb_Values = [52, 50], pb_ExpiresAt = 4600\<rparr>"
    by code_simp
  have h3: "0 < sint (pb_ExpiresAt \<lparr>pb_Values = [52, 50], pb_ExpiresAt = 4600\<rparr>)"
    by simp
  have h4: "sint (pb_ExpiresAt \<lparr>pb_Values = [52, 50], pb_ExpiresAt = 4600\<rparr>)
              < sint (now (test_env 5000))"
    by (simp add: test_env_def)
  have h6: "Cookie next_request ''app'' = Some (''app|'' @ ID saved_session)"
    by code_simp
  have h7: "DecodeMulti (test_env 5000) ''app'' (''app|'' @ ID saved_session)
              = Inr (ID saved_session)"
    by (simp add: test_env_def)
  have ok: "tx_begin (test_env 5000) = None"
    "bucket_Delete (test_env 5000) (ID saved_session) = None"
    "tx_commit (test_env 5000) = None"
    by (simp_all add: test_env_def)
  show ?thesis
    using h1 h2 h3 h4 h6 h7 ok load_expired_record [OF h1 h2 h3 h4 refl h6 h7]
    by (simp split: prod.splits)
qed

text \<open>
  The claim C5 as it is written speaks of every expiration time that is not zero and lies
  in the past. A record whose expiration time is negative, one second before the epoch, is
  not zero and lies before the clock; \<^verbatim>\<open>load\<close> finds it, decodes its values and leaves it
  in the bucket.
\<close>

theorem load_negative_expiry_counterexample:
  "db epoch_store ''abc'' = Some (int64_bytes (- 1) @ [52, 50])
   \<and> proto_Unmarshal (test_env 1000) (int64_bytes (- 1) @ [52, 50])
       = Inr \<lparr>pb_Values = [52, 50], pb_ExpiresAt = - 1\<rparr>
   \<and> (- 1 :: int64) \<noteq> 0
   \<and> sint (- 1 :: int64) < sint (now (test_env 1000))
   \<and> fst (fst (load (test_env 1000) epoch_store ((sessions_NewSession ''app'')\<lparr>ID := ''abc''\<rparr>)))
   \<and> Values (snd (snd (load (test_env 1000) epoch_store
         ((sessions_NewSession ''app'')\<lparr>ID := ''abc''\<rparr>)))) ''uid'' = Some ''42''
   \<and> db (fst (snd (load (test_env 1000) epoch_store
         ((sessions_NewSession ''app'')\<lparr>ID := ''abc''\<rparr>)))) ''abc''
       = Some (int64_bytes (- 1) @ [52, 50])
   \<and> \<not> IsNew (fst (New (test_env 1000) epoch_store [(''app'', ''app|abc'')] ''app''))"
proof -
  have "db epoch_store ''abc'' = Some (int64_bytes (- 1) @ [52, 50])"
    by code_simp
  moreover have "proto_Unmarshal (test_env 1000) (int64_bytes (- 1) @ [52, 50])
       = Inr \<lparr>pb_Values = [52, 50], pb_ExpiresAt = - 1\<rparr>"
    by code_simp
  moreover have "sint (- 1 :: int64) < sint (now (test_env 1000))"
    by (simp add: test_env_def)
  moreover have
    "fst (fst (load (test_env 1000) epoch_store ((sessions_NewSession ''app'')\<lparr>ID := ''abc''\<rparr>)))"
    by code_simp
  moreover have "Values (snd (snd (load (test_env 1000) epoch_store
         ((sessions_NewSession ''app'')\<lparr>ID := ''abc''\<rparr>)))) ''uid'' = Some ''42''"
    by code_simp
  moreover have "db (fst (snd (load (test_env 1000) epoch_store
         ((sessions_NewSession ''app'')\<lparr>ID := ''abc''\<rparr>)))) ''abc''
       = Some (int64_bytes (- 1) @ [52, 50])"
    by code_simp
  moreover have
    "\<not> IsNew (fst (New (test_env 1000) epoch_store [(''app'', ''app|abc'')] ''app''))"
    by code_simp
  ultimately show ?thesis
    by simp
qed

subsection \<open>Saving a session\<close>

lemma save_result:
  "save e s session =
     (case gob_Encode e (Values session) of
        Inl err \<Rightarrow> (Some err, s)
      | Inr buf \<Rightarrow>
          (case proto_Marshal e (NewSession buf (MaxAge (Options session)) (now e)) of
             Inl err \<Rightarrow> (None, s)
           | Inr data \<Rightarrow>
               (case tx_begin e of
                  Some err \<Rightarrow> (Some err, s)
                | None \<Rightarrow>
                    (case bucket_Put e (ID session) data of
                       Some err \<Rightarrow> (Some err, s)
                     | None \<Rightarrow>
                         (case tx_commit e of
                            Some err \<Rightarrow> (Some err, s)
                          | None \<Rightarrow> (None, s\<lparr>db := (db s)(ID session \<mapsto> data)\<rparr>))))))"
  by (simp add: save_def Update_def Put_def split: sum.splits option.splits)

text \<open>Whenever \<^verbatim>\<open>Save\<close> returns an error, it has set no cookie.\<close>

lemma Save_error_no_cookie:
  assumes "fst (Save e s r w session) = Some err"
  shows "fst (snd (snd (Save e s r w session))) = w"
  using assms
  by (auto simp: Save_def Let_def split: if_splits prod.splits option.splits sum.splits)

text \<open>
  When \<^verbatim>\<open>db.Update\<close> fails inside \<^verbatim>\<open>save\<close>, \<^verbatim>\<open>Save\<close> returns its error and sets no
  cookie, and the bucket is as before.
\<close>

lemma Save_update_error_no_cookie:
  assumes "\<not> sint (MaxAge (Options session)) < 0"
    and "fst (save e s session1) = Some err"
    and "session1 = (if ID session = []
                     then session\<lparr>ID := TrimRight (EncodeToString (GenerateRandomKey e 32)) ''=''\<rparr>
                     else session)"
  shows "Save e s r w session = (Some err, snd (save e s session1), w, session1)"
proof -
  obtain s' where sv: "save e s session1 = (Some err, s')"
    using assms(2) by (cases "save e s session1") simp
  show ?thesis
    using assms(1) unfolding Save_def Let_def assms(3) [symmetric]
    by (simp add: sv)
qed

lemma Save_success:
  assumes "\<not> sint (MaxAge (Options session)) < 0"
    and "session1 = (if ID session = []
                     then session\<lparr>ID := TrimRight (EncodeToString (GenerateRandomKey e 32)) ''=''\<rparr>
                     else session)"
    and "gob_Encode e (Values session) = Inr buf"
    and "proto_Marshal e (NewSession buf (MaxAge (Options session)) (now e)) = Inr data"
    and "tx_begin e = None"
    and "bucket_Put e (ID session1) data = None"
    and "tx_commit e = None"
    and "EncodeMulti e (name session) (ID session1) = Inr encoded"
  shows "Save e s r w session =
           (None, s\<lparr>db := (db s)(ID session1 \<mapsto> data)\<rparr>,
            w @ [\<lparr>Name = name session, Value = encoded, Attrs = Options session\<rparr>], session1)"
proof -
  have v: "Values session1 = Values session" "Options session1 = Options session"
    "name session1 = name session"
    using assms(2) by simp_all
  have "save e s session1 = (None, s\<lparr>db := (db s)(ID session1 \<mapsto> data)\<rparr>)"
    using assms(3-7) by (simp add: save_result v)
  then show ?thesis
    using assms(1,8) v unfolding Save_def Let_def assms(2) [symmetric]
    by (simp add: SetCookie_def NewCookie_def)
qed

text \<open>
  C10, as the code has it. When the random source yields no bytes, a session saved with an
  empty identifier keeps the empty identifier: \<^verbatim>\<open>Save\<close> has no check of its own and hands
  the empty key to \<^verbatim>\<open>save\<close>. What happens next is the answer of \<^verbatim>\<open>Bucket.Put\<close>. When it
  rejects the key, as bolt does for an empty key, \<^verbatim>\<open>Save\<close> returns that error, sets no
  cookie and leaves the store as it was.
\<close>

theorem Save_without_random_key:
  assumes "0 \<le> sint (MaxAge (Options session))"
    and "ID session = []"
    and "GenerateRandomKey e 32 = []"
  shows "case Save e s r w session of
           (err, s', w', session') \<Rightarrow>
             ID session' = [] \<and> session' = session
             \<and> (gob_Encode e (Values session) = Inr buf
                  \<and> proto_Marshal e (NewSession buf (MaxAge (Options session)) (now e)) = Inr data
                  \<and> tx_begin e = None \<and> bucket_Put e [] data = Some perr
                \<longrightarrow> err = Some perr \<and> s' = s \<and> w' = w)"
proof -
  have trim: "TrimRight (EncodeToString (GenerateRandomKey e 32)) ''='' = []"
    by (simp add: assms(3) TrimRight_def)
  have neg: "\<not> sint (MaxAge (Options session)) < 0"
    using assms(1) by simp
  have s1: "session = (if ID session = []
                     then session\<lparr>ID := TrimRight (EncodeToString (GenerateRandomKey e 32)) ''=''\<rparr>
                     else session)"
    using assms(2) by (simp add: trim)
  have a: "snd (snd (snd (Save e s r w session))) = session"
    using Save_session [OF neg, of e s r w] s1 by simp
  have b: "Save e s r w session = (Some perr, s, w, session)"
    if "gob_Encode e (Values session) = Inr buf"
      "proto_Marshal e (NewSession buf (MaxAge (Options session)) (now e)) = Inr data"
      "tx_begin e = None" "bucket_Put e [] data = Some perr"
  proof -
    have sv: "save e s session = (Some perr, s)"
      using that assms(2) by (simp add: save_result)
    then have "fst (save e s session) = Some perr"
      by simp
    from Save_update_error_no_cookie [OF neg this s1, of r w] sv show ?thesis
      by simp
  qed
  show ?thesis
    using a b assms(2) by (auto split: prod.splits)
qed

theorem Save_without_random_key_witness:
  "0 \<le> sint (MaxAge (Options test_session))
   \<and> ID test_session = []
   \<and> GenerateRandomKey no_key_env 32 = []
   \<and> gob_Encode no_key_env (Values test_session) = Inr [52, 50]
   \<and> proto_Marshal no_key_env
        (NewSession [52, 50] (MaxAge (Options test_session)) (now no_key_env))
       = Inr [248, 17, 0, 0, 0, 0, 0, 0, 52, 50]
   \<and> tx_begin no_key_env = None
   \<and> bucket_Put no_key_env [] [248, 17, 0, 0, 0, 0, 0, 0, 52, 50] = Some (Error ''key required'')
   \<and> (case Save no_key_env test_store [] [] test_session of
         (err, s', w', session') \<Rightarrow>
           ID session' = [] \<and> err = Some (Error ''key required'')
           \<and> s' = test_store \<and> w' = [])"
proof -
  have h1: "0 \<le> sint (MaxAge (Options test_session))"
    by (simp add: test_session_def New_def Cookie_def Let_def test_store_def test_options_def)
  have h2: "ID test_session = []"
    by (simp add: test_session_def New_def Cookie_def Let_def sessions_NewSession_def)
  have h3: "GenerateRandomKey no_key_env 32 = []"
    by (simp add: no_key_env_def)
  have c1: "gob_Encode no_key_env (Values test_session) = Inr [52, 50]"
    by code_simp
  have c2: "proto_Marshal no_key_env
              (NewSession [52, 50] (MaxAge (Options test_session)) (now no_key_env))
              = Inr [248, 17, 0, 0, 0, 0, 0, 0, 52, 50]"
    by code_simp
  have c3: "tx_begin no_key_env = None"
    "bucket_Put no_key_env [] [248, 17, 0, 0, 0, 0, 0, 0, 52, 50] = Some (Error ''key required'')"
    by (simp_all add: no_key_env_def test_env_def)
  show ?thesis
    using h1 h2 h3 c1 c2 c3
      Save_without_random_key [OF h1 h2 h3, where buf = "[52, 50]"
        and data = "[248, 17, 0, 0, 0, 0, 0, 0, 52, 50]" and perr = "Error ''key required''"
        and s = test_store and r = "[]" and w = "[]"]
    by (simp split: prod.splits)
qed

text \<open>
  The claim C10 as it is written says that \<^verbatim>\<open>Save\<close> persists the record under the empty
  key and sets the cookie rather than failing. With the random source failing and
  \<^verbatim>\<open>Bucket.Put\<close> answering an empty key as bolt does, \<^verbatim>\<open>Save\<close> of a session that has a
  max-age of 3600 and no identifier fails: it returns the error of \<^verbatim>\<open>Put\<close>, the response
  has no cookie, and the bucket has no record under the empty key.
\<close>

theorem Save_empty_key_counterexample:
  "sint (MaxAge (Options test_session)) = 3600
   \<and> ID test_session = []
   \<and> GenerateRandomKey no_key_env 32 = []
   \<and> fst (Save no_key_env test_store [] [] test_session) = Some (Error ''key required'')
   \<and> fst (snd (snd (Save no_key_env test_store [] [] test_session))) = []
   \<and> db (fst (snd (Save no_key_env test_store [] [] test_session))) [] = None
   \<and> ID (snd (snd (snd (Save no_key_env test_store [] [] test_session)))) = []"
  by code_simp

subsection \<open>Saving and reading back\<close>

text \<open>
  The record that \<^verbatim>\<open>save\<close> builds at time \<open>t1\<close> with a positive max-age is not expired at
  any time \<open>t2\<close> from \<open>t1\<close> up to max-age seconds later. When the sum \<open>t1 + maxAge\<close> wraps,
  it is negative, and \<^verbatim>\<open>load\<close> does not take a time that is not positive for an expiration.
\<close>

lemma not_expired_within_max_age:
  fixes maxAge t1 t2 :: int64
  assumes "0 < sint maxAge"
    and "sint t1 \<le> sint t2"
    and "sint t2 \<le> sint t1 + sint maxAge"
  shows "\<not> (0 < sint (pb_ExpiresAt (NewSession buf maxAge t1))
            \<and> sint (pb_ExpiresAt (NewSession buf maxAge t1)) < sint t2)"
proof -
  have ex: "pb_ExpiresAt (NewSession buf maxAge t1) = t1 + maxAge"
    using assms(1) by (simp add: NewSession_def)
  have sum: "sint (t1 + maxAge) = signed_take_bit 63 (sint t1 + sint maxAge)"
    by (simp add: sint_word_ariths)
  have lo: "- (2 ^ 63) \<le> sint t1 + sint maxAge"
    using sint_ge [of t1] assms(1) by simp
  have hi: "sint t1 + sint maxAge < 2 ^ 64"
    using sint_lt [of t1] sint_lt [of maxAge] by simp
  show ?thesis
  proof (cases "sint t1 + sint maxAge < 2 ^ 63")
    case True
    then have "sint (t1 + maxAge) = sint t1 + sint maxAge"
      using lo by (simp add: sum signed_take_bit_int_eq_self)
    then show ?thesis
      using assms(3) by (simp add: ex)
  next
    case False
    then have ge: "2 ^ 63 \<le> sint t1 + sint maxAge"
      by simp
    have "signed_take_bit 63 (sint t1 + sint maxAge) \<le> sint t1 + sint maxAge - 2 ^ Suc 63"
      by (rule signed_take_bit_int_less_eq [OF ge])
    moreover have "sint t1 + sint maxAge - 2 ^ Suc 63 < 0"
      using hi by simp
    ultimately have "signed_take_bit 63 (sint t1 + sint maxAge) < 0"
      by (rule le_less_trans)
    then have "sint (t1 + maxAge) < 0"
      by (simp only: sum)
    then show ?thesis
      by (simp add: ex)
  qed
qed

text \<open>
  C1. A session with a positive max-age is saved at one time and read back at a later time,
  at most max-age seconds after, through a request that has no registry yet and carries
  the cookie that \<^verbatim>\<open>Save\<close> has set. The collaborators work: gob and the protocol-buffer
  codec return at the second call what was given to them at the first, the secure-cookie
  codec decodes the cookie to the identifier it encoded, and the transactions succeed.
  Then \<^verbatim>\<open>Save\<close> returns \<^verbatim>\<open>nil\<close>, and \<^verbatim>\<open>Get\<close> returns, without error, a session that is
  not new and has the values that were saved.
\<close>

theorem Save_then_Get:
  assumes "0 < sint (MaxAge (Options session))"
    and "sint (now e1) \<le> sint (now e2)"
    and "sint (now e2) \<le> sint (now e1) + sint (MaxAge (Options session))"
    and "gob_Encode e1 (Values session) = Inr buf"
    and "gob_Decode e2 buf Map.empty = (None, Values session)"
    and "proto_Marshal e1 (NewSession buf (MaxAge (Options session)) (now e1)) = Inr data"
    and "proto_Unmarshal e2 data = Inr (NewSession buf (MaxAge (Options session)) (now e1))"
    and "sid = (if ID session = []
                then TrimRight (EncodeToString (GenerateRandomKey e1 32)) ''=''
                else ID session)"
    and "EncodeMulti e1 (name session) sid = Inr encoded"
    and "DecodeMulti e2 (name session) encoded = Inr sid"
    and "tx_begin e1 = None"
    and "bucket_Put e1 sid data = None"
    and "tx_commit e1 = None"
    and "tx_begin e2 = None"
    and "tx_commit e2 = None"
    and "Save e1 s r w session = (err1, s1, w1, session1)"
    and "Cookie r2 (name session) = Some (Value (last w1))"
  shows "err1 = None
         \<and> (case Get e2 s1 Map.empty r2 (name session) of
              ((session2, err2), s2, reg2) \<Rightarrow>
                err2 = None \<and> Values session2 = Values session \<and> \<not> IsNew session2
                \<and> ID session2 = sid)"
proof -
  let ?session1 = "if ID session = []
                   then session\<lparr>ID := TrimRight (EncodeToString (GenerateRandomKey e1 32)) ''=''\<rparr>
                   else session"
  let ?sd = "NewSession buf (MaxAge (Options session)) (now e1)"
  have neg: "\<not> sint (MaxAge (Options session)) < 0"
    using assms(1) by simp
  have id1: "ID ?session1 = sid"
    using assms(8) by simp
  have "Save e1 s r w session =
          (None, s\<lparr>db := (db s)(ID ?session1 \<mapsto> data)\<rparr>,
           w @ [\<lparr>Name = name session, Value = encoded, Attrs = Options session\<rparr>], ?session1)"
    using assms(4,6,9,11,12,13) id1
    by (intro Save_success [OF neg refl]) simp_all
  then have res: "err1 = None" "s1 = s\<lparr>db := (db s)(sid \<mapsto> data)\<rparr>"
    "w1 = w @ [\<lparr>Name = name session, Value = encoded, Attrs = Options session\<rparr>]"
    using assms(16) id1 by simp_all
  have c: "Cookie r2 (name session) = Some encoded"
    using assms(17) by (simp add: res(3))
  let ?fresh = "(sessions_NewSession (name session))
                  \<lparr>Options := config s1, IsNew := True, ID := sid\<rparr>"
  have found: "db s1 (ID ?fresh) = Some data"
    by (simp add: res(2))
  have valid: "\<not> (0 < sint (pb_ExpiresAt ?sd) \<and> sint (pb_ExpiresAt ?sd) < sint (now e2))"
    using not_expired_within_max_age [OF assms(1,2,3)] .
  have empty: "Values ?fresh = Map.empty"
    by (simp add: sessions_NewSession_def)
  have pv: "pb_Values ?sd = buf"
    by (simp add: NewSession_def)
  have l: "load e2 s1 ?fresh = ((True, None), s1, ?fresh\<lparr>Values := Values session\<rparr>)"
    by (simp add: load_valid [OF found assms(7) valid] assms(5,14,15) empty pv)
  have "New e2 s1 r2 (name session)
          = (?fresh\<lparr>Values := Values session, IsNew := False\<rparr>, None, s1)"
    using c assms(10) l by (simp add: New_def Let_def)
  then show ?thesis
    using res(1) by (simp add: Get_def)
qed

theorem Save_then_Get_witness:
  "0 < sint (MaxAge (Options test_session))
   \<and> sint (now (test_env 1000)) \<le> sint (now (test_env 2000))
   \<and> sint (now (test_env 2000)) \<le> sint (now (test_env 1000)) + sint (MaxAge (Options test_session))
   \<and> gob_Encode (test_env 1000) (Values test_session) = Inr [52, 50]
   \<and> gob_Decode (test_env 2000) [52, 50] Map.empty = (None, Values test_session)
   \<and> proto_Marshal (test_env 1000)
        (NewSession [52, 50] (MaxAge (Options test_session)) (now (test_env 1000)))
       = Inr [248, 17, 0, 0, 0, 0, 0, 0, 52, 50]
   \<and> proto_Unmarshal (test_env 2000) [248, 17, 0, 0, 0, 0, 0, 0, 52, 50]
       = Inr (NewSession [52, 50] (MaxAge (Options test_session)) (now (test_env 1000)))
   \<and> Save (test_env 1000) test_store [] [] test_session
       = (fst saved, saved_store, saved_response, saved_session)
   \<and> Cookie next_request (name test_session) = Some (Value (last saved_response))
   \<and> fst saved = None
   \<and> (case Get (test_env 2000) saved_store Map.empty next_request (name test_session) of
         ((session2, err2), s2, reg2) \<Rightarrow>
           err2 = None \<and> Values session2 = Values test_session \<and> \<not> IsNew session2)"
proof -
  let ?sid = "if ID test_session = []
              then TrimRight (EncodeToString (GenerateRandomKey (test_env 1000) 32)) ''=''
              else ID test_session"
  have opts: "Options test_session = test_options" "name test_session = ''app''"
    "Values test_session = [''uid'' \<mapsto> ''42'']"
    by (simp_all add: test_session_def New_def Cookie_def Let_def test_store_def
        sessions_NewSession_def)
  have h1: "0 < sint (MaxAge (Options test_session))"
    by (simp add: opts test_options_def)
  have h2: "sint (now (test_env 1000)) \<le> sint (now (test_env 2000))"
    by (simp add: test_env_def)
  have h3: "sint (now (test_env 2000))
              \<le> sint (now (test_env 1000)) + sint (MaxAge (Options test_session))"
    by (simp add: test_env_def opts test_options_def)
  have h4: "gob_Encode (test_env 1000) (Values test_session) = Inr [52, 50]"
    by code_simp
  have "map char_of_byte [52, 50] = ''42''"
    by code_simp
  then have h5: "gob_Decode (test_env 2000) [52, 50] Map.empty = (None, Values test_session)"
    by (simp add: test_env_def opts)
  have h6: "proto_Marshal (test_env 1000)
        (NewSession [52, 50] (MaxAge (Options test_session)) (now (test_env 1000)))
       = Inr [248, 17, 0, 0, 0, 0, 0, 0, 52, 50]"
    by code_simp
  have h7: "proto_Unmarshal (test_env 2000) [248, 17, 0, 0, 0, 0, 0, 0, 52, 50]
       = Inr (NewSession [52, 50] (MaxAge (Options test_session)) (now (test_env 1000)))"
    by code_simp
  have h9: "EncodeMulti (test_env 1000) (name test_session) ?sid = Inr (''app|'' @ ?sid)"
    by (simp add: test_env_def opts)
  have h10: "DecodeMulti (test_env 2000) (name test_session) (''app|'' @ ?sid) = Inr ?sid"
    by (simp add: test_env_def opts)
  have db: "tx_begin (test_env 1000) = None"
    "bucket_Put (test_env 1000) ?sid [248, 17, 0, 0, 0, 0, 0, 0, 52, 50] = None"
    "tx_commit (test_env 1000) = None"
    "tx_begin (test_env 2000) = None" "tx_commit (test_env 2000) = None"
    by (simp_all add: test_env_def)
  have h16: "Save (test_env 1000) test_store [] [] test_session
               = (fst saved, saved_store, saved_response, saved_session)"
    by (simp add: saved_def saved_store_def saved_response_def saved_session_def)
  have h17: "Cookie next_request (name test_session) = Some (Value (last saved_response))"
    by code_simp
  show ?thesis
    using h1 h2 h3 h4 h5 h6 h7 h16 h17
      Save_then_Get [OF h1 h2 h3 h4 h5 h6 h7 refl h9 h10 db h16 h17]
    by (simp split: prod.splits)
qed

subsection \<open>Errors that are not returned\<close>

text \<open>\<^verbatim>\<open>save\<close> returns an error only from the gob encoder or from the database.\<close>

lemma save_error_source:
  assumes "fst (save e s session) = Some err"
  shows "gob_Encode e (Values session) = Inl err
         \<or> tx_begin e = Some err
         \<or> (\<exists>data. bucket_Put e (ID session) data = Some err)
         \<or> tx_commit e = Some err"
  using assms
  by (auto simp: save_result split: sum.splits option.splits)

text \<open>\<^verbatim>\<open>New\<close> returns an error only from the secure-cookie codec.\<close>

lemma New_error_source:
  assumes "fst (snd (New e s r nm)) = Some err"
  shows "\<exists>c. Cookie r nm = Some c \<and> DecodeMulti e nm c = Inl err"
  using assms
  by (auto simp: New_def Let_def split: option.splits sum.splits prod.splits)

text \<open>
  C2. The values are encoded, \<^verbatim>\<open>proto.Marshal\<close> fails on the wire record, and both
  \<^verbatim>\<open>save\<close> and \<^verbatim>\<open>Save\<close> return \<^verbatim>\<open>nil\<close>: the error of the marshaller is lost.
\<close>

theorem save_drops_marshal_error:
  "gob_Encode
      ((test_env 1000)\<lparr>proto_Marshal := \<lambda>sd. Inl (Error ''proto: required field not set'')\<rparr>)
      (Values test_session) = Inr [52, 50]
   \<and> proto_Marshal
        ((test_env 1000)\<lparr>proto_Marshal := \<lambda>sd. Inl (Error ''proto: required field not set'')\<rparr>)
        (NewSession [52, 50] (MaxAge (Options test_session)) 1000)
       = Inl (Error ''proto: required field not set'')
   \<and> fst (save
        ((test_env 1000)\<lparr>proto_Marshal := \<lambda>sd. Inl (Error ''proto: required field not set'')\<rparr>)
        test_store test_session) = None
   \<and> fst (Save
        ((test_env 1000)\<lparr>proto_Marshal := \<lambda>sd. Inl (Error ''proto: required field not set'')\<rparr>)
        test_store [] [] test_session) = None"
  by code_simp

text \<open>
  C3. In the same environment nothing is written to the bucket, and \<^verbatim>\<open>Save\<close> still sets
  the cookie: the response carries a cookie for an identifier that has no record.
\<close>

theorem Save_sets_cookie_without_record:
  "(case Save
      ((test_env 1000)\<lparr>proto_Marshal := \<lambda>sd. Inl (Error ''proto: required field not set'')\<rparr>)
      test_store [] [] test_session of
      (err, s', w', session') \<Rightarrow>
        err = None
        \<and> db s' (ID session') = None
        \<and> map Name w' = [''app'']
        \<and> map Value w' = [''app|'' @ ID session'])"
  by code_simp

text \<open>
  C4. The database cannot open a transaction. \<^verbatim>\<open>delete\<close> returns the error and \<^verbatim>\<open>Save\<close>,
  on the path of a negative max-age, returns \<^verbatim>\<open>nil\<close> and sets the cookie; \<^verbatim>\<open>load\<close> returns
  the error and \<^verbatim>\<open>New\<close> returns \<^verbatim>\<open>nil\<close>.
\<close>

theorem backing_store_errors_dropped:
  "fst (delete ((test_env 2000)\<lparr>tx_begin := Some (Error ''database not open'')\<rparr>) saved_store
          (saved_session\<lparr>Options := (Options saved_session)\<lparr>MaxAge := - 1\<rparr>\<rparr>))
     = Some (Error ''database not open'')
   \<and> fst (Save ((test_env 2000)\<lparr>tx_begin := Some (Error ''database not open'')\<rparr>) saved_store
          [] [] (saved_session\<lparr>Options := (Options saved_session)\<lparr>MaxAge := - 1\<rparr>\<rparr>))
     = None
   \<and> length (fst (snd (snd
        (Save ((test_env 2000)\<lparr>tx_begin := Some (Error ''database not open'')\<rparr>) saved_store
          [] [] (saved_session\<lparr>Options := (Options saved_session)\<lparr>MaxAge := - 1\<rparr>\<rparr>))))) = 1
   \<and> Cookie next_request ''app'' = Some (''app|'' @ ID saved_session)
   \<and> DecodeMulti ((test_env 2000)\<lparr>tx_begin := Some (Error ''database not open'')\<rparr>) ''app''
        (''app|'' @ ID saved_session) = Inr (ID saved_session)
   \<and> snd (fst (load ((test_env 2000)\<lparr>tx_begin := Some (Error ''database not open'')\<rparr>)
          saved_store saved_session))
     = Some (Error ''database not open'')
   \<and> fst (snd (New ((test_env 2000)\<lparr>tx_begin := Some (Error ''database not open'')\<rparr>)
          saved_store next_request ''app''))
     = None
   \<and> IsNew (fst (New ((test_env 2000)\<lparr>tx_begin := Some (Error ''database not open'')\<rparr>)
          saved_store next_request ''app''))"
  by code_simp

end
